theory Spec2Isabelle
  imports Complex_Main
begin

section \<open>Grocery purchase proposal: embedding of purch\_proposal.py\<close>

text \<open>
  The program mines association rules from market baskets with the external library
  mlxtend (\<open>apriori\<close>, \<open>association_rules\<close>) and answers a query of one to three items
  with one recommended item. The embedding covers the configuration constants,
  \<open>generate_association_rules\<close>, \<open>parse_input_items\<close> and \<open>find_best_recommendation\<close>.

  Conventions of the embedding:
  \<^item> Python floats that the code only passes on or compares (thresholds, confidences) are
    rationals: the decimal literals of the source denote these rationals up to rounding,
    rounding is monotone, and NaN does not occur among mlxtend's confidences.
  \<^item> An exception is a value \<open>Inl e\<close> of a sum type.
  \<^item> A DataFrame is the list of its rows in index order; \<open>.empty\<close> is \<open>= []\<close>.
  \<^item> The two library functions are parameters of the embedding: they are not code of
    this repository.
\<close>

subsection \<open>Configuration constants (lines 8 to 14)\<close>

definition MIN_SUPPORT_PRIMARY :: rat where
  "MIN_SUPPORT_PRIMARY = 5 / 1000"

definition MIN_SUPPORT_SECONDARY :: rat where
  "MIN_SUPPORT_SECONDARY = 2 / 1000"

definition MIN_SUPPORT_MINIMUM :: rat where
  "MIN_SUPPORT_MINIMUM = 1 / 1000"

definition MIN_CONFIDENCE_PRIMARY :: rat where
  "MIN_CONFIDENCE_PRIMARY = 1 / 100"

definition MIN_CONFIDENCE_SECONDARY :: rat where
  "MIN_CONFIDENCE_SECONDARY = 5 / 1000"

definition MIN_CONFIDENCE_MINIMUM :: rat where
  "MIN_CONFIDENCE_MINIMUM = 1 / 1000"

subsection \<open>Exceptions and rule rows\<close>

text \<open>
  Every exception that the modelled code can meet derives from Python's \<open>Exception\<close>:
  \<open>IndexError\<close> from \<open>list(...)[0]\<close>, \<open>ValueError\<close> and others from the library.
\<close>

datatype python_exception = IndexError | ValueError | OtherException

text \<open>
  One row of the rules DataFrame, with the three columns the program reads. The
  antecedents are a frozenset compared by equality (line 145), hence a set. The
  consequents are a frozenset that line 150 turns into a list to take element 0, hence the
  list of its members in iteration order.
\<close>

record rule =
  antecedents :: "string set"
  consequents :: "string list"
  confidence :: rat

subsection \<open>find\_best\_recommendation (lines 127 to 165)\<close>

text \<open>The return statement that produced the result: lines 139, 151, 163 and 165.\<close>

datatype return_site = Rules_empty | Exact_match | First_item | No_match

text \<open>
  \<open>frame.loc[frame['confidence'].idxmax()]\<close> on a non-empty frame with row \<open>best\<close> first:
  the first row, in index order, whose confidence is maximal.
\<close>

fun idxmax_row :: "rule \<Rightarrow> rule list \<Rightarrow> rule" where
  "idxmax_row best [] = best"
| "idxmax_row best (r # rs) =
     idxmax_row (if confidence best < confidence r then r else best) rs"

text \<open>\<open>list(best_rule['consequents'])[0]\<close>: IndexError on an empty consequent.\<close>

definition first_consequent :: "rule \<Rightarrow> python_exception + string option" where
  "first_consequent r =
     (case consequents r of [] \<Rightarrow> Inl IndexError | c # _ \<Rightarrow> Inr (Some c))"

definition find_best_recommendation ::
  "string list \<Rightarrow> rule list \<Rightarrow> return_site \<times> (python_exception + string option)" where
  "find_best_recommendation input_items rules =
     (if rules = [] then (Rules_empty, Inr None)
      else
        let input_set = set input_items in
        case filter (\<lambda>r. antecedents r = input_set) rules of
          m # ms \<Rightarrow> (Exact_match, first_consequent (idxmax_row m ms))
        | [] \<Rightarrow>
            (case input_items of
               [] \<Rightarrow> (No_match, Inr None)
             | first_item # _ \<Rightarrow>
                 (case filter (\<lambda>r. antecedents r = {first_item}) rules of
                    m # ms \<Rightarrow> (First_item, first_consequent (idxmax_row m ms))
                  | [] \<Rightarrow> (No_match, Inr None))))"

text \<open>
  The rows that mlxtend's rule generator produces split a frequent itemset into a
  non-empty antecedent and a non-empty consequent. The two halves of that invariant:
\<close>

definition consequents_nonempty :: "rule list \<Rightarrow> bool" where
  "consequents_nonempty rules = (\<forall>r \<in> set rules. consequents r \<noteq> [])"

definition antecedents_nonempty :: "rule list \<Rightarrow> bool" where
  "antecedents_nonempty rules = (\<forall>r \<in> set rules. antecedents r \<noteq> {})"

text \<open>The rules of the specification's example: a to b at 1, a to c at 2/3.\<close>

definition example_rules :: "rule list" where
  "example_rules =
     [\<lparr>antecedents = {''a''}, consequents = [''b''], confidence = 1\<rparr>,
      \<lparr>antecedents = {''a''}, consequents = [''c''], confidence = 2 / 3\<rparr>]"

subsection \<open>generate\_association\_rules (lines 57 to 104)\<close>

text \<open>
  What a run of the function does besides returning: the library calls it performs, in
  order, each with the threshold it was given (and, for the rule generator, the frame of
  frequent itemsets it was given). A run is that log with either the exception that
  ended it or its value.
\<close>

datatype 'fi library_call = Apriori rat | Association_rules "'fi list" rat

type_synonym ('fi, 'a) run = "'fi library_call list \<times> (python_exception + 'a)"

definition ret :: "'a \<Rightarrow> ('fi, 'a) run" where
  "ret v = ([], Inr v)"

text \<open>Sequencing of statements: an exception ends the run, the log is kept.\<close>

definition and_then :: "('fi, 'a) run \<Rightarrow> ('a \<Rightarrow> ('fi, 'b) run) \<Rightarrow> ('fi, 'b) run" where
  "and_then m f =
     (case m of
        (t, Inl e) \<Rightarrow> (t, Inl e)
      | (t, Inr v) \<Rightarrow> (case f v of (t', r) \<Rightarrow> (t @ t', r)))"

text \<open>\<open>try: body except Exception as e: handler\<close>\<close>

definition try_except ::
  "('fi, 'a) run \<Rightarrow> (python_exception \<Rightarrow> ('fi, 'a) run) \<Rightarrow> ('fi, 'a) run" where
  "try_except body handler =
     (case body of
        (t, Inl e) \<Rightarrow> (case handler e of (t', r) \<Rightarrow> (t @ t', r))
      | (t, Inr v) \<Rightarrow> (t, Inr v))"

text \<open>
  The two library functions, as the parameters \<open>apriori\<close> and \<open>association_rules\<close>: the
  frame \<open>df\<close> and the rows \<open>'fi\<close> of a frame of frequent itemsets are opaque to the
  program, which only asks whether a result is empty.
\<close>

definition call_apriori ::
  "('df \<Rightarrow> rat \<Rightarrow> python_exception + 'fi list) \<Rightarrow> 'df \<Rightarrow> rat \<Rightarrow> ('fi, 'fi list) run" where
  "call_apriori apriori df min_support = ([Apriori min_support], apriori df min_support)"

definition call_association_rules ::
  "('fi list \<Rightarrow> rat \<Rightarrow> python_exception + rule list) \<Rightarrow> 'fi list \<Rightarrow> rat \<Rightarrow> ('fi, rule list) run" where
  "call_association_rules association_rules frequent_itemsets min_threshold =
     ([Association_rules frequent_itemsets min_threshold],
      association_rules frequent_itemsets min_threshold)"

text \<open>Lines 71 to 79: the three mining passes.\<close>

definition mine_frequent_itemsets ::
  "('df \<Rightarrow> rat \<Rightarrow> python_exception + 'fi list) \<Rightarrow> 'df \<Rightarrow> ('fi, 'fi list) run" where
  "mine_frequent_itemsets apriori df =
     and_then (call_apriori apriori df MIN_SUPPORT_PRIMARY) (\<lambda>frequent_itemsets.
     and_then (if frequent_itemsets = []
               then call_apriori apriori df MIN_SUPPORT_SECONDARY
               else ret frequent_itemsets) (\<lambda>frequent_itemsets.
     and_then (if frequent_itemsets = []
               then call_apriori apriori df MIN_SUPPORT_MINIMUM
               else ret frequent_itemsets) (\<lambda>frequent_itemsets.
     ret frequent_itemsets)))"

text \<open>Lines 84 to 100: the three rule-generation passes.\<close>

definition generate_rules ::
  "('fi list \<Rightarrow> rat \<Rightarrow> python_exception + rule list) \<Rightarrow> 'fi list \<Rightarrow> rat \<Rightarrow> ('fi, rule list) run" where
  "generate_rules association_rules frequent_itemsets min_confidence =
     and_then (call_association_rules association_rules frequent_itemsets min_confidence) (\<lambda>rules.
     and_then (if rules = []
               then call_association_rules association_rules frequent_itemsets
                      MIN_CONFIDENCE_SECONDARY
               else ret rules) (\<lambda>rules.
     and_then (if rules = []
               then call_association_rules association_rules frequent_itemsets
                      MIN_CONFIDENCE_MINIMUM
               else ret rules) (\<lambda>rules.
     ret rules)))"

text \<open>The body of the \<open>try\<close> (lines 69 to 100).\<close>

definition generate_body ::
  "('df \<Rightarrow> rat \<Rightarrow> python_exception + 'fi list) \<Rightarrow>
   ('fi list \<Rightarrow> rat \<Rightarrow> python_exception + rule list) \<Rightarrow> 'df \<Rightarrow> rat \<Rightarrow> ('fi, rule list) run" where
  "generate_body apriori association_rules df min_confidence =
     and_then (mine_frequent_itemsets apriori df) (\<lambda>frequent_itemsets.
     generate_rules association_rules frequent_itemsets min_confidence)"

text \<open>
  The function: the handler of lines 102 to 104 returns \<open>pd.DataFrame()\<close>, an empty
  frame. A result \<open>Inl e\<close> would be an exception that reaches the caller.
\<close>

definition generate_association_rules ::
  "('df \<Rightarrow> rat \<Rightarrow> python_exception + 'fi list) \<Rightarrow>
   ('fi list \<Rightarrow> rat \<Rightarrow> python_exception + rule list) \<Rightarrow> 'df \<Rightarrow> rat \<Rightarrow> ('fi, rule list) run" where
  "generate_association_rules apriori association_rules df min_confidence =
     try_except (generate_body apriori association_rules df min_confidence) (\<lambda>e. ret [])"

text \<open>The thresholds of the mining passes and of the rule-generation passes of a log.\<close>

fun apriori_thresholds :: "'fi library_call list \<Rightarrow> rat list" where
  "apriori_thresholds [] = []"
| "apriori_thresholds (Apriori s # t) = s # apriori_thresholds t"
| "apriori_thresholds (Association_rules fi c # t) = apriori_thresholds t"

fun rules_thresholds :: "'fi library_call list \<Rightarrow> rat list" where
  "rules_thresholds [] = []"
| "rules_thresholds (Apriori s # t) = rules_thresholds t"
| "rules_thresholds (Association_rules fi c # t) = c # rules_thresholds t"

text \<open>
  Example library behaviours, over a one-point frame type and frequent itemsets named by
  numbers. A miner that finds one itemset only at support 0.001 or below, one that finds
  nothing, one that raises; and a rule generator that, as mlxtend's does, raises
  ValueError on an empty frame of itemsets and otherwise keeps the rules of a fixed list
  whose confidence reaches the threshold.
\<close>

definition sparse_apriori :: "unit \<Rightarrow> rat \<Rightarrow> python_exception + nat list" where
  "sparse_apriori df min_support = (if min_support \<le> 1 / 1000 then Inr [0] else Inr [])"

definition empty_apriori :: "unit \<Rightarrow> rat \<Rightarrow> python_exception + nat list" where
  "empty_apriori df min_support = Inr []"

definition failing_apriori :: "unit \<Rightarrow> rat \<Rightarrow> python_exception + nat list" where
  "failing_apriori df min_support = Inl OtherException"

definition faint_rules :: "rule list" where
  "faint_rules = [\<lparr>antecedents = {''a''}, consequents = [''b''], confidence = 15 / 10000\<rparr>]"

definition example_generator :: "nat list \<Rightarrow> rat \<Rightarrow> python_exception + rule list" where
  "example_generator frequent_itemsets min_threshold =
     (if frequent_itemsets = [] then Inl ValueError
      else Inr (filter (\<lambda>r. min_threshold \<le> confidence r) faint_rules))"

subsection \<open>parse\_input\_items (lines 106 to 125)\<close>

text \<open>
  A \<open>char\<close> is a code point below 256, so the strings of the embedding are Python's
  strings over Latin-1. On those, \<open>str.isspace\<close> holds of the code points 9 to 13, 28 to
  32, 133 and 160, and \<open>str.lower\<close> maps A to Z and the capital letters 192 to 222,
  without the multiplication sign 215, to the code point 32 above.
\<close>

definition str_isspace :: "char \<Rightarrow> bool" where
  "str_isspace ch =
     (let n = (of_char ch :: nat)
      in (9 \<le> n \<and> n \<le> 13) \<or> (28 \<le> n \<and> n \<le> 32) \<or> n = 133 \<or> n = 160)"

definition lower_char :: "char \<Rightarrow> char" where
  "lower_char ch =
     (let n = (of_char ch :: nat)
      in if (65 \<le> n \<and> n \<le> 90) \<or> (192 \<le> n \<and> n \<le> 222 \<and> n \<noteq> 215)
         then char_of (n + 32) else ch)"

definition str_lower :: "string \<Rightarrow> string" where
  "str_lower s = map lower_char s"

definition str_strip :: "string \<Rightarrow> string" where
  "str_strip s = rev (dropWhile str_isspace (rev (dropWhile str_isspace s)))"

text \<open>\<open>s.split(sep)\<close> for a one-character separator: the empty string gives one empty field.\<close>

fun str_split :: "char \<Rightarrow> string \<Rightarrow> string list" where
  "str_split sep [] = [[]]"
| "str_split sep (c # cs) =
     (if c = sep then [] # str_split sep cs
      else (case str_split sep cs of
              [] \<Rightarrow> [[c]]
            | w # ws \<Rightarrow> (c # w) # ws))"

text \<open>Lines 116 and 118: the fields, stripped and lowercased, without the empty ones.\<close>

definition cleaned_items :: "string \<Rightarrow> string list" where
  "cleaned_items input_str =
     filter (\<lambda>item. item \<noteq> [])
       (map (\<lambda>item. str_lower (str_strip item)) (str_split CHR '','' input_str))"

definition parse_input_items :: "string \<Rightarrow> string list" where
  "parse_input_items input_str =
     (let items = cleaned_items input_str
      in if length items > 3 then take 3 items else items)"

section \<open>Properties of the resolver\<close>

lemma idxmax_row_mem: "idxmax_row best rs \<in> set (best # rs)"
  by (induction rs arbitrary: best) auto

lemma idxmax_row_ge_best: "confidence best \<le> confidence (idxmax_row best rs)"
proof (induction rs arbitrary: best)
  case Nil
  show ?case by simp
next
  case (Cons x xs)
  show ?case
  proof (cases "confidence best < confidence x")
    case True
    then show ?thesis using Cons.IH [of x] by simp
  next
    case False
    then show ?thesis using Cons.IH [of best] by simp
  qed
qed

lemma idxmax_row_max: "r \<in> set rs \<Longrightarrow> confidence r \<le> confidence (idxmax_row best rs)"
proof (induction rs arbitrary: best)
  case Nil
  then show ?case by simp
next
  case (Cons x xs)
  let ?b = "if confidence best < confidence x then x else best"
  have ge: "confidence ?b \<le> confidence (idxmax_row ?b xs)"
    by (rule idxmax_row_ge_best)
  show ?case
  proof (cases "r = x")
    case True
    then show ?thesis using ge by (simp split: if_splits)
  next
    case False
    then have "r \<in> set xs" using Cons.prems by simp
    then show ?thesis using Cons.IH [of ?b] by simp
  qed
qed

lemma best_of_matching:
  assumes "filter P rules = m # ms"
  shows "idxmax_row m ms \<in> set rules \<and> P (idxmax_row m ms) \<and>
         (\<forall>r' \<in> set rules. P r' \<longrightarrow> confidence r' \<le> confidence (idxmax_row m ms))"
proof -
  have mem: "idxmax_row m ms \<in> set (filter P rules)"
    using idxmax_row_mem [of m ms] assms by simp
  have "\<forall>r' \<in> set (filter P rules). confidence r' \<le> confidence (idxmax_row m ms)"
    unfolding assms using idxmax_row_max [of _ ms m] idxmax_row_ge_best [of m ms] by auto
  with mem show ?thesis by auto
qed

lemma first_consequent_nonempty:
  assumes "consequents r \<noteq> []"
  shows "\<exists>item. item \<in> set (consequents r) \<and> first_consequent r = Inr (Some item)"
  using assms by (cases "consequents r") (auto simp: first_consequent_def)

text \<open>
  C1. Whenever some rule's antecedent equals the set of the query's items, the resolver
  returns from the exact-match branch (line 151, never the first-item fallback) an item
  of the consequent of a rule that has the greatest confidence among the rules whose
  antecedent equals the query set. The rules are rows as the generator produces them:
  each has a non-empty consequent.
\<close>

theorem resolver_exact_match:
  assumes "\<exists>r \<in> set rules. antecedents r = set input_items"
    and "consequents_nonempty rules"
  shows "\<exists>r item. r \<in> set rules \<and> antecedents r = set input_items \<and>
           (\<forall>r' \<in> set rules. antecedents r' = set input_items \<longrightarrow> confidence r' \<le> confidence r) \<and>
           item \<in> set (consequents r) \<and>
           find_best_recommendation input_items rules = (Exact_match, Inr (Some item))"
proof -
  from assms(1) have ne: "rules \<noteq> []" by auto
  from assms(1) have "filter (\<lambda>r. antecedents r = set input_items) rules \<noteq> []"
    by (simp add: filter_empty_conv)
  then obtain m ms where f: "filter (\<lambda>r. antecedents r = set input_items) rules = m # ms"
    by (cases "filter (\<lambda>r. antecedents r = set input_items) rules") auto
  let ?b = "idxmax_row m ms"
  from best_of_matching [OF f]
  have b: "?b \<in> set rules" "antecedents ?b = set input_items"
    "\<forall>r' \<in> set rules. antecedents r' = set input_items \<longrightarrow> confidence r' \<le> confidence ?b"
    by auto
  from b(1) assms(2) have "consequents ?b \<noteq> []" by (simp add: consequents_nonempty_def)
  then obtain item where i: "item \<in> set (consequents ?b)" "first_consequent ?b = Inr (Some item)"
    using first_consequent_nonempty by blast
  have "find_best_recommendation input_items rules = (Exact_match, Inr (Some item))"
    using ne f i(2) by (simp add: find_best_recommendation_def)
  with b i(1) show ?thesis by blast
qed

text \<open>The example of the specification: query a, rules a to b at 1 and a to c at 2/3.\<close>

theorem resolver_exact_match_witness:
  "consequents_nonempty example_rules \<and>
   find_best_recommendation [''a''] example_rules = (Exact_match, Inr (Some ''b''))"
  using resolver_exact_match [of example_rules "[''a'']"]
  by (simp add: example_rules_def consequents_nonempty_def find_best_recommendation_def first_consequent_def)

lemma fallback_unfold:
  assumes "rules \<noteq> []"
    and "filter (\<lambda>r. antecedents r = set (first_item # rest)) rules = []"
  shows "find_best_recommendation (first_item # rest) rules =
           (case filter (\<lambda>r. antecedents r = {first_item}) rules of
              m # ms \<Rightarrow> (First_item, first_consequent (idxmax_row m ms))
            | [] \<Rightarrow> (No_match, Inr None))"
  unfolding find_best_recommendation_def Let_def assms(2)
  using assms(1) by simp

text \<open>
  C2. For a non-empty query whose item set is the antecedent of no rule, the resolver
  looks up the first item of the query alone. If some rule has exactly that singleton
  antecedent, the result (from line 163) is an item of the consequent of a rule of
  greatest confidence among those rules; otherwise there is no recommendation.
\<close>

theorem resolver_first_item_fallback:
  assumes "input_items \<noteq> []"
    and "\<not> (\<exists>r \<in> set rules. antecedents r = set input_items)"
    and "consequents_nonempty rules"
  shows "if \<exists>r \<in> set rules. antecedents r = {hd input_items}
         then \<exists>r item. r \<in> set rules \<and> antecedents r = {hd input_items} \<and>
                (\<forall>r' \<in> set rules. antecedents r' = {hd input_items} \<longrightarrow>
                   confidence r' \<le> confidence r) \<and>
                item \<in> set (consequents r) \<and>
                find_best_recommendation input_items rules = (First_item, Inr (Some item))
         else snd (find_best_recommendation input_items rules) = Inr None"
proof -
  obtain first_item rest where q: "input_items = first_item # rest"
    using assms(1) by (cases input_items) auto
  have hd_q: "hd input_items = first_item" by (simp add: q)
  have "filter (\<lambda>r. antecedents r = set input_items) rules = []"
    using assms(2) unfolding filter_empty_conv by blast
  then have nomatch: "filter (\<lambda>r. antecedents r = set (first_item # rest)) rules = []"
    unfolding q .
  show ?thesis
  proof (cases "\<exists>r \<in> set rules. antecedents r = {first_item}")
    case True
    then obtain r0 where "r0 \<in> set rules" by blast
    then have ne: "rules \<noteq> []" by (cases rules) simp_all
    from True have "filter (\<lambda>r. antecedents r = {first_item}) rules \<noteq> []"
      unfolding filter_empty_conv by blast
    then obtain m ms where f: "filter (\<lambda>r. antecedents r = {first_item}) rules = m # ms"
      by (cases "filter (\<lambda>r. antecedents r = {first_item}) rules") auto
    let ?b = "idxmax_row m ms"
    from best_of_matching [OF f]
    have b1: "?b \<in> set rules" and b2: "antecedents ?b = {first_item}"
      and b3: "\<forall>r' \<in> set rules. antecedents r' = {first_item} \<longrightarrow> confidence r' \<le> confidence ?b"
      by blast+
    from b1 assms(3) have "consequents ?b \<noteq> []" unfolding consequents_nonempty_def by blast
    then obtain item where i1: "item \<in> set (consequents ?b)"
      and i2: "first_consequent ?b = Inr (Some item)"
      using first_consequent_nonempty by blast
    have res: "find_best_recommendation (first_item # rest) rules = (First_item, Inr (Some item))"
      unfolding fallback_unfold [OF ne nomatch] f using i2 by simp
    have "\<exists>r item. r \<in> set rules \<and> antecedents r = {first_item} \<and>
                (\<forall>r' \<in> set rules. antecedents r' = {first_item} \<longrightarrow>
                   confidence r' \<le> confidence r) \<and>
                item \<in> set (consequents r) \<and>
                find_best_recommendation (first_item # rest) rules = (First_item, Inr (Some item))"
      using b1 b2 b3 i1 res by blast
    then show ?thesis unfolding q list.sel using True by simp
  next
    case False
    then have f: "filter (\<lambda>r. antecedents r = {first_item}) rules = []"
      unfolding filter_empty_conv by blast
    have "snd (find_best_recommendation (first_item # rest) rules) = Inr None"
    proof (cases "rules = []")
      case True
      then show ?thesis by (simp add: find_best_recommendation_def)
    next
      case ne: False
      show ?thesis unfolding fallback_unfold [OF ne nomatch] f by simp
    qed
    then show ?thesis unfolding q list.sel using False by simp
  qed
qed

text \<open>Query a, b on the example rules: no rule for the pair, so the rules of a decide.\<close>

theorem resolver_first_item_fallback_witness:
  "[''a'', ''b''] \<noteq> [] \<and>
   \<not> (\<exists>r \<in> set example_rules. antecedents r = set [''a'', ''b'']) \<and>
   consequents_nonempty example_rules \<and>
   find_best_recommendation [''a'', ''b''] example_rules = (First_item, Inr (Some ''b''))"
  using resolver_first_item_fallback [of "[''a'', ''b'']" example_rules]
  by (simp add: example_rules_def consequents_nonempty_def find_best_recommendation_def
      first_consequent_def)

text \<open>
  C3. On rule rows with non-empty antecedent and consequent, for every query the resolver
  returns a value: an item or no recommendation, never an exception. It returns no
  recommendation when the rule set is empty, when the query is empty, and when no item of
  the query occurs in any antecedent.
\<close>

theorem resolver_total:
  assumes "consequents_nonempty rules" and "antecedents_nonempty rules"
  shows "(\<exists>res. snd (find_best_recommendation input_items rules) = Inr res) \<and>
         (rules = [] \<longrightarrow> snd (find_best_recommendation input_items rules) = Inr None) \<and>
         (input_items = [] \<longrightarrow> snd (find_best_recommendation input_items rules) = Inr None) \<and>
         ((\<forall>r \<in> set rules. set input_items \<inter> antecedents r = {}) \<longrightarrow>
            snd (find_best_recommendation input_items rules) = Inr None)"
proof -
  have fc: "\<exists>res. first_consequent (idxmax_row m ms) = Inr res"
    if "filter P rules = m # ms" for P m ms
  proof -
    have "idxmax_row m ms \<in> set rules" using best_of_matching [OF that] by simp
    then have "consequents (idxmax_row m ms) \<noteq> []"
      using assms(1) by (simp add: consequents_nonempty_def)
    then show ?thesis using first_consequent_nonempty by blast
  qed
  have total: "\<exists>res. snd (find_best_recommendation input_items rules) = Inr res"
    using fc by (auto simp: find_best_recommendation_def split: list.splits)
  have empty_rules: "rules = [] \<longrightarrow> snd (find_best_recommendation input_items rules) = Inr None"
    by (simp add: find_best_recommendation_def)
  have no_exact: "filter (\<lambda>r. antecedents r = {}) rules = []"
    using assms(2) by (auto simp: antecedents_nonempty_def filter_empty_conv)
  have empty_query: "input_items = [] \<longrightarrow> snd (find_best_recommendation input_items rules) = Inr None"
    using no_exact by (simp add: find_best_recommendation_def)
  have unknown: "snd (find_best_recommendation input_items rules) = Inr None"
    if dis: "\<forall>r \<in> set rules. set input_items \<inter> antecedents r = {}"
  proof (cases input_items)
    case Nil
    then show ?thesis using empty_query by simp
  next
    case (Cons first_item rest)
    have "filter (\<lambda>r. antecedents r = set input_items) rules = []"
      using dis Cons by (auto simp: filter_empty_conv)
    moreover have "filter (\<lambda>r. antecedents r = {first_item}) rules = []"
      using dis Cons by (auto simp: filter_empty_conv)
    ultimately show ?thesis using Cons by (simp add: find_best_recommendation_def)
  qed
  from total empty_rules empty_query unknown show ?thesis by blast
qed

text \<open>The empty query and a query of an unknown item, on the example rules.\<close>

theorem resolver_total_witness:
  "consequents_nonempty example_rules \<and> antecedents_nonempty example_rules \<and>
   snd (find_best_recommendation [] example_rules) = Inr None \<and>
   snd (find_best_recommendation [''z''] example_rules) = Inr None"
  using resolver_total [of example_rules "[]"] resolver_total [of example_rules "[''z'']"]
  by (simp add: example_rules_def consequents_nonempty_def antecedents_nonempty_def)

section \<open>The configuration constants\<close>

text \<open>
  C8. The support thresholds 0.005, 0.002, 0.001 and the confidence thresholds 0.01, 0.005,
  0.001 are constants of the program, each list strictly decreasing.
\<close>

theorem thresholds_decreasing:
  "MIN_SUPPORT_PRIMARY > MIN_SUPPORT_SECONDARY \<and> MIN_SUPPORT_SECONDARY > MIN_SUPPORT_MINIMUM \<and>
   MIN_CONFIDENCE_PRIMARY > MIN_CONFIDENCE_SECONDARY \<and>
   MIN_CONFIDENCE_SECONDARY > MIN_CONFIDENCE_MINIMUM \<and>
   [MIN_SUPPORT_PRIMARY, MIN_SUPPORT_SECONDARY, MIN_SUPPORT_MINIMUM] = [5 / 1000, 2 / 1000, 1 / 1000] \<and>
   [MIN_CONFIDENCE_PRIMARY, MIN_CONFIDENCE_SECONDARY, MIN_CONFIDENCE_MINIMUM] =
     [1 / 100, 5 / 1000, 1 / 1000]"
  by (simp add: MIN_SUPPORT_PRIMARY_def MIN_SUPPORT_SECONDARY_def MIN_SUPPORT_MINIMUM_def
      MIN_CONFIDENCE_PRIMARY_def MIN_CONFIDENCE_SECONDARY_def MIN_CONFIDENCE_MINIMUM_def)

section \<open>Properties of rule generation\<close>

text \<open>The passes of the two stages, and the log and value of the whole function.\<close>

lemma mine_cases:
  "mine_frequent_itemsets ap df =
     (if ap df MIN_SUPPORT_PRIMARY \<noteq> Inr []
      then ([Apriori MIN_SUPPORT_PRIMARY], ap df MIN_SUPPORT_PRIMARY)
      else if ap df MIN_SUPPORT_SECONDARY \<noteq> Inr []
      then ([Apriori MIN_SUPPORT_PRIMARY, Apriori MIN_SUPPORT_SECONDARY],
            ap df MIN_SUPPORT_SECONDARY)
      else ([Apriori MIN_SUPPORT_PRIMARY, Apriori MIN_SUPPORT_SECONDARY,
             Apriori MIN_SUPPORT_MINIMUM], ap df MIN_SUPPORT_MINIMUM))"
  by (auto simp: mine_frequent_itemsets_def and_then_def call_apriori_def ret_def
      split: sum.splits)

lemma generate_rules_cases:
  "generate_rules ar fi c =
     (if ar fi c \<noteq> Inr []
      then ([Association_rules fi c], ar fi c)
      else if ar fi MIN_CONFIDENCE_SECONDARY \<noteq> Inr []
      then ([Association_rules fi c, Association_rules fi MIN_CONFIDENCE_SECONDARY],
            ar fi MIN_CONFIDENCE_SECONDARY)
      else ([Association_rules fi c, Association_rules fi MIN_CONFIDENCE_SECONDARY,
             Association_rules fi MIN_CONFIDENCE_MINIMUM], ar fi MIN_CONFIDENCE_MINIMUM))"
  by (auto simp: generate_rules_def and_then_def call_association_rules_def ret_def
      split: sum.splits)

lemma generate_log:
  "fst (generate_association_rules ap ar df c) =
     fst (mine_frequent_itemsets ap df) @
     (case snd (mine_frequent_itemsets ap df) of
        Inl e \<Rightarrow> []
      | Inr fi \<Rightarrow> fst (generate_rules ar fi c))"
  by (cases "mine_frequent_itemsets ap df")
    (auto simp: generate_association_rules_def generate_body_def try_except_def and_then_def
      ret_def split: sum.splits prod.splits)

lemma generate_value:
  "snd (generate_association_rules ap ar df c) =
     (case snd (mine_frequent_itemsets ap df) of
        Inl e \<Rightarrow> Inr []
      | Inr fi \<Rightarrow>
          (case snd (generate_rules ar fi c) of Inl e \<Rightarrow> Inr [] | Inr rules \<Rightarrow> Inr rules))"
  by (cases "mine_frequent_itemsets ap df")
    (auto simp: generate_association_rules_def generate_body_def try_except_def and_then_def
      ret_def split: sum.splits prod.splits)

lemma apriori_thresholds_append:
  "apriori_thresholds (t @ u) = apriori_thresholds t @ apriori_thresholds u"
  by (induction t rule: apriori_thresholds.induct) simp_all

lemma rules_thresholds_append:
  "rules_thresholds (t @ u) = rules_thresholds t @ rules_thresholds u"
  by (induction t rule: rules_thresholds.induct) simp_all

lemma apriori_thresholds_generate_rules:
  "apriori_thresholds (fst (generate_rules ar fi c)) = []"
  by (simp add: generate_rules_cases)

lemma rules_thresholds_mine: "rules_thresholds (fst (mine_frequent_itemsets ap df)) = []"
  by (simp add: mine_cases)

lemma support_constants_distinct:
  "MIN_SUPPORT_PRIMARY \<noteq> MIN_SUPPORT_SECONDARY"
  "MIN_SUPPORT_PRIMARY \<noteq> MIN_SUPPORT_MINIMUM"
  "MIN_SUPPORT_SECONDARY \<noteq> MIN_SUPPORT_MINIMUM"
  by (simp_all add: MIN_SUPPORT_PRIMARY_def MIN_SUPPORT_SECONDARY_def MIN_SUPPORT_MINIMUM_def)

lemma apriori_thresholds_generate:
  "apriori_thresholds (fst (generate_association_rules ap ar df c)) =
     apriori_thresholds (fst (mine_frequent_itemsets ap df))"
  by (simp add: generate_log apriori_thresholds_append apriori_thresholds_generate_rules
      split: sum.splits)

text \<open>
  C4. The mining passes of a run are: one at the primary support threshold; a second, at
  the secondary threshold, exactly when the first returned an empty collection; a third, at
  the minimum threshold, exactly when the second returned an empty collection too; and no
  other. When all three are empty, the stage yields the empty collection as its value, and
  the run goes on to call the rule generator with it.
\<close>

theorem support_escalation:
  "apriori_thresholds (fst (generate_association_rules ap ar df c)) =
     (if ap df MIN_SUPPORT_PRIMARY \<noteq> Inr [] then [MIN_SUPPORT_PRIMARY]
      else if ap df MIN_SUPPORT_SECONDARY \<noteq> Inr []
      then [MIN_SUPPORT_PRIMARY, MIN_SUPPORT_SECONDARY]
      else [MIN_SUPPORT_PRIMARY, MIN_SUPPORT_SECONDARY, MIN_SUPPORT_MINIMUM]) \<and>
   (MIN_SUPPORT_SECONDARY \<in> set (apriori_thresholds (fst (generate_association_rules ap ar df c)))
      \<longleftrightarrow> ap df MIN_SUPPORT_PRIMARY = Inr []) \<and>
   (MIN_SUPPORT_MINIMUM \<in> set (apriori_thresholds (fst (generate_association_rules ap ar df c)))
      \<longleftrightarrow> ap df MIN_SUPPORT_PRIMARY = Inr [] \<and> ap df MIN_SUPPORT_SECONDARY = Inr []) \<and>
   (ap df MIN_SUPPORT_PRIMARY = Inr [] \<and> ap df MIN_SUPPORT_SECONDARY = Inr [] \<and>
    ap df MIN_SUPPORT_MINIMUM = Inr [] \<longrightarrow>
      mine_frequent_itemsets ap df =
        ([Apriori MIN_SUPPORT_PRIMARY, Apriori MIN_SUPPORT_SECONDARY,
          Apriori MIN_SUPPORT_MINIMUM], Inr []) \<and>
      (\<exists>rest. fst (generate_association_rules ap ar df c) =
         [Apriori MIN_SUPPORT_PRIMARY, Apriori MIN_SUPPORT_SECONDARY,
          Apriori MIN_SUPPORT_MINIMUM, Association_rules [] c] @ rest))"
proof -
  let ?T = "apriori_thresholds (fst (generate_association_rules ap ar df c))"
  have eq: "?T =
     (if ap df MIN_SUPPORT_PRIMARY \<noteq> Inr [] then [MIN_SUPPORT_PRIMARY]
      else if ap df MIN_SUPPORT_SECONDARY \<noteq> Inr []
      then [MIN_SUPPORT_PRIMARY, MIN_SUPPORT_SECONDARY]
      else [MIN_SUPPORT_PRIMARY, MIN_SUPPORT_SECONDARY, MIN_SUPPORT_MINIMUM])"
    unfolding apriori_thresholds_generate by (simp add: mine_cases)
  have second: "MIN_SUPPORT_SECONDARY \<in> set ?T \<longleftrightarrow> ap df MIN_SUPPORT_PRIMARY = Inr []"
    unfolding eq using support_constants_distinct by simp
  have third: "MIN_SUPPORT_MINIMUM \<in> set ?T \<longleftrightarrow>
      ap df MIN_SUPPORT_PRIMARY = Inr [] \<and> ap df MIN_SUPPORT_SECONDARY = Inr []"
    unfolding eq using support_constants_distinct by simp
  have last: "mine_frequent_itemsets ap df =
        ([Apriori MIN_SUPPORT_PRIMARY, Apriori MIN_SUPPORT_SECONDARY,
          Apriori MIN_SUPPORT_MINIMUM], Inr []) \<and>
      (\<exists>rest. fst (generate_association_rules ap ar df c) =
         [Apriori MIN_SUPPORT_PRIMARY, Apriori MIN_SUPPORT_SECONDARY,
          Apriori MIN_SUPPORT_MINIMUM, Association_rules [] c] @ rest)"
    if e: "ap df MIN_SUPPORT_PRIMARY = Inr [] \<and> ap df MIN_SUPPORT_SECONDARY = Inr [] \<and>
      ap df MIN_SUPPORT_MINIMUM = Inr []"
  proof -
    have m: "mine_frequent_itemsets ap df =
        ([Apriori MIN_SUPPORT_PRIMARY, Apriori MIN_SUPPORT_SECONDARY,
          Apriori MIN_SUPPORT_MINIMUM], Inr [])"
      using e by (simp add: mine_cases)
    have "\<exists>rest. fst (generate_rules ar [] c) = Association_rules [] c # rest"
      by (simp add: generate_rules_cases)
    then show ?thesis using m by (auto simp: generate_log)
  qed
  from eq second third last show ?thesis by blast
qed

text \<open>
  A miner that finds something only at the minimum threshold, one that finds nothing, and
  one that raises at once.
\<close>

theorem support_escalation_witness:
  "apriori_thresholds (fst (generate_association_rules sparse_apriori example_generator () (1 / 100))) =
     [5 / 1000, 2 / 1000, 1 / 1000] \<and>
   apriori_thresholds (fst (generate_association_rules empty_apriori example_generator () (1 / 100))) =
     [5 / 1000, 2 / 1000, 1 / 1000] \<and>
   mine_frequent_itemsets empty_apriori () =
     ([Apriori (5 / 1000), Apriori (2 / 1000), Apriori (1 / 1000)], Inr []) \<and>
   apriori_thresholds (fst (generate_association_rules failing_apriori example_generator () (1 / 100))) =
     [5 / 1000]"
  using support_escalation [of sparse_apriori example_generator "()" "1 / 100"]
    support_escalation [of empty_apriori example_generator "()" "1 / 100"]
    support_escalation [of failing_apriori example_generator "()" "1 / 100"]
  by (simp add: sparse_apriori_def empty_apriori_def failing_apriori_def
      MIN_SUPPORT_PRIMARY_def MIN_SUPPORT_SECONDARY_def MIN_SUPPORT_MINIMUM_def)

lemma rules_thresholds_generate_rules:
  "rules_thresholds (fst (generate_rules ar fi c)) =
     (if ar fi c \<noteq> Inr [] then [c]
      else if ar fi MIN_CONFIDENCE_SECONDARY \<noteq> Inr [] then [c, MIN_CONFIDENCE_SECONDARY]
      else [c, MIN_CONFIDENCE_SECONDARY, MIN_CONFIDENCE_MINIMUM])"
  by (simp add: generate_rules_cases)

lemma rules_thresholds_generate:
  "rules_thresholds (fst (generate_association_rules ap ar df c)) =
     (case snd (mine_frequent_itemsets ap df) of
        Inl e \<Rightarrow> []
      | Inr fi \<Rightarrow> rules_thresholds (fst (generate_rules ar fi c)))"
  by (simp add: generate_log rules_thresholds_append rules_thresholds_mine split: sum.splits)

text \<open>
  C5, as stated, fails: when the caller's threshold is 0.002 and the first pass finds no
  rule, the retry is made at 0.005, which is not looser than 0.002.
\<close>

theorem confidence_retry_not_looser:
  "example_generator [0] (2 / 1000) = Inr [] \<and>
   rules_thresholds (fst (generate_association_rules sparse_apriori example_generator ()
     (2 / 1000))) = [2 / 1000, 5 / 1000, 1 / 1000] \<and>
   \<not> (5 / 1000 < (2 / 1000 :: rat))"
  by (simp add: rules_thresholds_generate rules_thresholds_generate_rules mine_cases
      sparse_apriori_def example_generator_def faint_rules_def
      MIN_SUPPORT_PRIMARY_def MIN_SUPPORT_SECONDARY_def MIN_SUPPORT_MINIMUM_def
      MIN_CONFIDENCE_SECONDARY_def MIN_CONFIDENCE_MINIMUM_def)

text \<open>
  C5, amended. When mining has produced the frequent itemsets, the first rule-generation
  pass runs at the caller's threshold; if it yields an empty rule set, generation is
  retried from the same frequent itemsets at the fixed threshold 0.005, and again at the
  fixed threshold 0.001 if still empty, stopping at the first pass that is not empty (or
  raises) or after the third. The value is that of the last pass, an exception giving the
  empty rule set. The retries are looser than the caller's threshold when that is above
  0.005, as the default 0.01 is.
\<close>

theorem confidence_escalation:
  assumes "snd (mine_frequent_itemsets ap df) = Inr fi"
  shows "fst (generate_association_rules ap ar df c) =
           fst (mine_frequent_itemsets ap df) @
           map (Association_rules fi)
             (if ar fi c \<noteq> Inr [] then [c]
              else if ar fi MIN_CONFIDENCE_SECONDARY \<noteq> Inr [] then [c, MIN_CONFIDENCE_SECONDARY]
              else [c, MIN_CONFIDENCE_SECONDARY, MIN_CONFIDENCE_MINIMUM]) \<and>
         snd (generate_association_rules ap ar df c) =
           (case (if ar fi c \<noteq> Inr [] then ar fi c
                  else if ar fi MIN_CONFIDENCE_SECONDARY \<noteq> Inr []
                  then ar fi MIN_CONFIDENCE_SECONDARY
                  else ar fi MIN_CONFIDENCE_MINIMUM) of
              Inl e \<Rightarrow> Inr []
            | Inr rules \<Rightarrow> Inr rules) \<and>
         (MIN_CONFIDENCE_SECONDARY < c \<longrightarrow>
            (\<forall>x \<in> set (tl (rules_thresholds (fst (generate_association_rules ap ar df c)))).
               x < c))"
proof -
  have log: "fst (generate_association_rules ap ar df c) =
           fst (mine_frequent_itemsets ap df) @
           map (Association_rules fi)
             (if ar fi c \<noteq> Inr [] then [c]
              else if ar fi MIN_CONFIDENCE_SECONDARY \<noteq> Inr [] then [c, MIN_CONFIDENCE_SECONDARY]
              else [c, MIN_CONFIDENCE_SECONDARY, MIN_CONFIDENCE_MINIMUM])"
    unfolding generate_log assms by (simp add: generate_rules_cases)
  have val: "snd (generate_association_rules ap ar df c) =
           (case (if ar fi c \<noteq> Inr [] then ar fi c
                  else if ar fi MIN_CONFIDENCE_SECONDARY \<noteq> Inr []
                  then ar fi MIN_CONFIDENCE_SECONDARY
                  else ar fi MIN_CONFIDENCE_MINIMUM) of
              Inl e \<Rightarrow> Inr []
            | Inr rules \<Rightarrow> Inr rules)"
    unfolding generate_value assms by (simp add: generate_rules_cases)
  have looser: "\<forall>x \<in> set (tl (rules_thresholds (fst (generate_association_rules ap ar df c)))).
      x < c" if "MIN_CONFIDENCE_SECONDARY < c"
  proof -
    have "MIN_CONFIDENCE_MINIMUM < MIN_CONFIDENCE_SECONDARY"
      by (simp add: MIN_CONFIDENCE_SECONDARY_def MIN_CONFIDENCE_MINIMUM_def)
    then have "MIN_CONFIDENCE_MINIMUM < c" using that by simp
    then show ?thesis
      unfolding rules_thresholds_generate assms using that
      by (simp add: rules_thresholds_generate_rules)
  qed
  from log val looser show ?thesis by blast
qed

text \<open>The default threshold 0.01 on rules of confidence 0.0015: three passes.\<close>

theorem confidence_escalation_witness:
  "snd (mine_frequent_itemsets sparse_apriori ()) = Inr [0] \<and>
   fst (generate_association_rules sparse_apriori example_generator () (1 / 100)) =
     [Apriori (5 / 1000), Apriori (2 / 1000), Apriori (1 / 1000),
      Association_rules [0] (1 / 100), Association_rules [0] (5 / 1000),
      Association_rules [0] (1 / 1000)] \<and>
   snd (generate_association_rules sparse_apriori example_generator () (1 / 100)) =
     Inr faint_rules"
  using confidence_escalation [of sparse_apriori "()" "[0]" example_generator "1 / 100"]
  by (simp add: mine_cases sparse_apriori_def example_generator_def faint_rules_def
      MIN_SUPPORT_PRIMARY_def MIN_SUPPORT_SECONDARY_def MIN_SUPPORT_MINIMUM_def
      MIN_CONFIDENCE_SECONDARY_def MIN_CONFIDENCE_MINIMUM_def)

text \<open>
  C6. When all three mining passes return an empty collection, the rule generator is called
  once, with the empty collection and the caller's threshold; mlxtend's generator raises
  ValueError on an empty frame of itemsets, so the handler returns the empty rule set: no
  further pass is made and no exception reaches the caller.
\<close>

theorem no_escalation_on_empty_itemsets:
  assumes "ap df MIN_SUPPORT_PRIMARY = Inr []"
    and "ap df MIN_SUPPORT_SECONDARY = Inr []"
    and "ap df MIN_SUPPORT_MINIMUM = Inr []"
    and "ar [] c = Inl e"
  shows "generate_association_rules ap ar df c =
           ([Apriori MIN_SUPPORT_PRIMARY, Apriori MIN_SUPPORT_SECONDARY,
             Apriori MIN_SUPPORT_MINIMUM, Association_rules [] c], Inr [])"
proof -
  have m: "mine_frequent_itemsets ap df =
      ([Apriori MIN_SUPPORT_PRIMARY, Apriori MIN_SUPPORT_SECONDARY,
        Apriori MIN_SUPPORT_MINIMUM], Inr [])"
    using assms(1-3) by (simp add: mine_cases)
  have g: "generate_rules ar [] c = ([Association_rules [] c], Inl e)"
    using assms(4) by (simp add: generate_rules_cases)
  have "fst (generate_association_rules ap ar df c) =
      [Apriori MIN_SUPPORT_PRIMARY, Apriori MIN_SUPPORT_SECONDARY,
       Apriori MIN_SUPPORT_MINIMUM, Association_rules [] c]"
    by (simp add: generate_log m g)
  moreover have "snd (generate_association_rules ap ar df c) = Inr []"
    by (simp add: generate_value m g)
  ultimately show ?thesis by (simp add: prod_eq_iff)
qed

text \<open>The miner that finds nothing, with the generator that raises on an empty frame.\<close>

theorem no_escalation_on_empty_itemsets_witness:
  "empty_apriori () MIN_SUPPORT_PRIMARY = Inr [] \<and>
   empty_apriori () MIN_SUPPORT_SECONDARY = Inr [] \<and>
   empty_apriori () MIN_SUPPORT_MINIMUM = Inr [] \<and>
   example_generator [] (1 / 100) = Inl ValueError \<and>
   generate_association_rules empty_apriori example_generator () (1 / 100) =
     ([Apriori (5 / 1000), Apriori (2 / 1000), Apriori (1 / 1000),
       Association_rules [] (1 / 100)], Inr [])"
  using no_escalation_on_empty_itemsets
    [of empty_apriori "()" example_generator "1 / 100" ValueError]
  by (simp add: empty_apriori_def example_generator_def
      MIN_SUPPORT_PRIMARY_def MIN_SUPPORT_SECONDARY_def MIN_SUPPORT_MINIMUM_def)

text \<open>
  C7. Whatever the two library functions do, the function returns a rule set and no
  exception. When the body of the \<open>try\<close> raised, the rule set is empty, and the
  resolver answers every query on it with no recommendation.
\<close>

theorem generation_never_raises:
  "\<exists>t rules. generate_association_rules ap ar df c = (t, Inr rules) \<and>
     ((\<exists>e. snd (generate_body ap ar df c) = Inl e) \<longrightarrow>
        rules = [] \<and> (\<forall>q. snd (find_best_recommendation q rules) = Inr None))"
proof (cases "generate_body ap ar df c")
  case (Pair t r)
  show ?thesis
  proof (cases r)
    case (Inl e)
    have "generate_association_rules ap ar df c = (t, Inr [])"
      by (simp add: generate_association_rules_def try_except_def ret_def Pair Inl)
    moreover have "\<forall>q. snd (find_best_recommendation q []) = Inr None"
      by (simp add: find_best_recommendation_def)
    ultimately show ?thesis by blast
  next
    case (Inr rules)
    have "generate_association_rules ap ar df c = (t, Inr rules)"
      by (simp add: generate_association_rules_def try_except_def Pair Inr)
    moreover have "\<not> (\<exists>e. snd (generate_body ap ar df c) = Inl e)"
      by (simp add: Pair Inr)
    ultimately show ?thesis by blast
  qed
qed

text \<open>The miner that raises at once.\<close>

theorem generation_never_raises_witness:
  "snd (generate_body failing_apriori example_generator () (1 / 100)) = Inl OtherException \<and>
   generate_association_rules failing_apriori example_generator () (1 / 100) =
     ([Apriori (5 / 1000)], Inr []) \<and>
   snd (find_best_recommendation [''a''] []) = Inr None"
  using generation_never_raises [of failing_apriori example_generator "()" "1 / 100"]
  by (simp add: generate_association_rules_def generate_body_def try_except_def ret_def
      and_then_def mine_cases failing_apriori_def find_best_recommendation_def
      MIN_SUPPORT_PRIMARY_def)

text \<open>
  C10. Only the first rule-generation pass uses the caller's threshold: the thresholds of
  the passes of a run are none (mining raised), or the caller's alone, or the caller's
  followed by the constant 0.005, or by 0.005 and the constant 0.001. Hence for a caller's
  threshold below 0.005 the first retry, when there is one, is not looser than the first
  pass.
\<close>

theorem retries_use_fixed_constants:
  "rules_thresholds (fst (generate_association_rules ap ar df c)) \<in>
     {[], [c], [c, MIN_CONFIDENCE_SECONDARY],
      [c, MIN_CONFIDENCE_SECONDARY, MIN_CONFIDENCE_MINIMUM]} \<and>
   MIN_CONFIDENCE_SECONDARY = 5 / 1000 \<and> MIN_CONFIDENCE_MINIMUM = 1 / 1000 \<and>
   (c < MIN_CONFIDENCE_SECONDARY \<and>
    2 \<le> length (rules_thresholds (fst (generate_association_rules ap ar df c))) \<longrightarrow>
      rules_thresholds (fst (generate_association_rules ap ar df c)) ! 1 = 5 / 1000 \<and>
      \<not> rules_thresholds (fst (generate_association_rules ap ar df c)) ! 1 < c)"
proof -
  let ?T = "rules_thresholds (fst (generate_association_rules ap ar df c))"
  have shape: "?T \<in> {[], [c], [c, MIN_CONFIDENCE_SECONDARY],
      [c, MIN_CONFIDENCE_SECONDARY, MIN_CONFIDENCE_MINIMUM]}"
    by (simp add: rules_thresholds_generate rules_thresholds_generate_rules split: sum.splits)
  have vals: "MIN_CONFIDENCE_SECONDARY = 5 / 1000" "MIN_CONFIDENCE_MINIMUM = 1 / 1000"
    by (simp_all add: MIN_CONFIDENCE_SECONDARY_def MIN_CONFIDENCE_MINIMUM_def)
  have retry: "?T ! 1 = 5 / 1000 \<and> \<not> ?T ! 1 < c"
    if "c < MIN_CONFIDENCE_SECONDARY \<and> 2 \<le> length ?T"
  proof -
    from shape that have "?T ! 1 = MIN_CONFIDENCE_SECONDARY" by auto
    then show ?thesis using that vals by simp
  qed
  from shape vals retry show ?thesis by blast
qed

text \<open>The caller's threshold 0.002, with a retry.\<close>

theorem retries_use_fixed_constants_witness:
  "(2 / 1000 :: rat) < MIN_CONFIDENCE_SECONDARY \<and>
   rules_thresholds (fst (generate_association_rules sparse_apriori example_generator ()
     (2 / 1000))) = [2 / 1000, 5 / 1000, 1 / 1000]"
  using retries_use_fixed_constants [of sparse_apriori example_generator "()" "2 / 1000"]
  by (simp add: rules_thresholds_generate rules_thresholds_generate_rules mine_cases
      sparse_apriori_def example_generator_def faint_rules_def
      MIN_SUPPORT_PRIMARY_def MIN_SUPPORT_SECONDARY_def MIN_SUPPORT_MINIMUM_def
      MIN_CONFIDENCE_SECONDARY_def MIN_CONFIDENCE_MINIMUM_def)

section \<open>Properties of the query parser\<close>

text \<open>
  Lowercasing is idempotent and neither makes nor removes whitespace; stripping is
  idempotent; so a stripped and lowercased field is a fixed point of both.
\<close>

lemma lower_char_idem: "lower_char (lower_char ch) = lower_char ch"
  by (simp add: lower_char_def Let_def)

lemma isspace_lower_char: "str_isspace (lower_char ch) = str_isspace ch"
  by (auto simp: lower_char_def str_isspace_def Let_def)

lemma str_lower_idem: "str_lower (str_lower s) = str_lower s"
  by (simp add: str_lower_def lower_char_idem)

lemma dropWhile_fixed: "xs = [] \<or> \<not> P (hd xs) \<Longrightarrow> dropWhile P xs = xs"
  by (cases xs) auto

lemma strip_right_keeps_head:
  assumes "xs = [] \<or> \<not> P (hd xs)"
  shows "rev (dropWhile P (rev xs)) = [] \<or> \<not> P (hd (rev (dropWhile P (rev xs))))"
proof -
  let ?u = "rev (dropWhile P (rev xs))"
  have split: "xs = ?u @ rev (takeWhile P (rev xs))"
  proof -
    have "?u @ rev (takeWhile P (rev xs)) =
        rev (takeWhile P (rev xs) @ dropWhile P (rev xs))"
      by (simp only: rev_append)
    also have "\<dots> = rev (rev xs)" by (simp only: takeWhile_dropWhile_id)
    also have "\<dots> = xs" by (simp only: rev_rev_ident)
    finally show ?thesis by (rule sym)
  qed
  show ?thesis
  proof (cases "?u = []")
    case True
    then show ?thesis by simp
  next
    case False
    then have "hd (?u @ rev (takeWhile P (rev xs))) = hd ?u" by simp
    with split have "hd xs = hd ?u" by simp
    moreover from False split have "xs \<noteq> []" by auto
    ultimately show ?thesis using assms by simp
  qed
qed

lemma str_strip_idem: "str_strip (str_strip s) = str_strip s"
proof -
  let ?t = "dropWhile str_isspace s"
  let ?u = "rev (dropWhile str_isspace (rev ?t))"
  have "?t = [] \<or> \<not> str_isspace (hd ?t)"
    using hd_dropWhile [of str_isspace s] by blast
  then have "?u = [] \<or> \<not> str_isspace (hd ?u)" by (rule strip_right_keeps_head)
  then have left: "dropWhile str_isspace ?u = ?u" by (rule dropWhile_fixed)
  have "dropWhile str_isspace (rev ?u) = rev ?u" by simp
  with left show ?thesis by (simp add: str_strip_def)
qed

lemma dropWhile_isspace_lower:
  "dropWhile str_isspace (map lower_char xs) = map lower_char (dropWhile str_isspace xs)"
proof -
  have "str_isspace \<circ> lower_char = str_isspace"
    by (rule ext) (simp add: isspace_lower_char)
  then show ?thesis by (simp add: dropWhile_map)
qed

lemma str_strip_lower: "str_strip (str_lower s) = str_lower (str_strip s)"
  by (simp only: str_strip_def str_lower_def dropWhile_isspace_lower rev_map)

lemma cleaned_item_props:
  assumes "item \<in> set (cleaned_items s)"
  shows "item \<noteq> [] \<and> str_strip item = item \<and> str_lower item = item"
proof -
  from assms obtain field where item: "item = str_lower (str_strip field)" and ne: "item \<noteq> []"
    by (auto simp: cleaned_items_def)
  have "str_strip item = item"
    unfolding item by (simp add: str_strip_lower str_strip_idem)
  moreover have "str_lower item = item"
    unfolding item by (rule str_lower_idem)
  ultimately show ?thesis using ne by simp
qed

lemma parse_take: "parse_input_items s = take 3 (cleaned_items s)"
  by (simp add: parse_input_items_def Let_def)

text \<open>
  C9. For every input string the parser returns at most three items, each non-empty,
  unchanged by stripping and unchanged by lowercasing. The result is the first three, in
  input order, of the cleaned non-empty fields: more than three are cut to three, not
  rejected. Equal items are all kept, as in the input of three spellings of milk.
\<close>

theorem parse_input_items_spec:
  "length (parse_input_items s) \<le> 3 \<and>
   (\<forall>item \<in> set (parse_input_items s).
      item \<noteq> [] \<and> str_strip item = item \<and> str_lower item = item) \<and>
   parse_input_items s = take 3 (cleaned_items s) \<and>
   (3 < length (cleaned_items s) \<longrightarrow> length (parse_input_items s) = 3) \<and>
   parse_input_items ''milk, Milk ,milk'' = [''milk'', ''milk'', ''milk'']"
proof -
  have len: "length (parse_input_items s) \<le> 3" by (simp add: parse_take)
  have items: "\<forall>item \<in> set (parse_input_items s).
      item \<noteq> [] \<and> str_strip item = item \<and> str_lower item = item"
  proof
    fix item
    assume "item \<in> set (parse_input_items s)"
    then have "item \<in> set (cleaned_items s)"
      unfolding parse_take by (rule in_set_takeD)
    then show "item \<noteq> [] \<and> str_strip item = item \<and> str_lower item = item"
      by (rule cleaned_item_props)
  qed
  have trunc: "3 < length (cleaned_items s) \<longrightarrow> length (parse_input_items s) = 3"
    by (simp add: parse_take)
  have dup: "parse_input_items ''milk, Milk ,milk'' = [''milk'', ''milk'', ''milk'']"
    by code_simp
  from len items parse_take trunc dup show ?thesis by blast
qed

text \<open>Five fields, one of them empty: four remain after cleaning, three are returned.\<close>

theorem parse_input_items_spec_witness:
  "parse_input_items '' Whole Milk,bread ,, A,b'' = [''whole milk'', ''bread'', ''a''] \<and>
   cleaned_items '' Whole Milk,bread ,, A,b'' = [''whole milk'', ''bread'', ''a'', ''b''] \<and>
   str_strip ''whole milk'' = ''whole milk'' \<and> str_lower ''whole milk'' = ''whole milk''"
proof -
  have p: "parse_input_items '' Whole Milk,bread ,, A,b'' = [''whole milk'', ''bread'', ''a'']"
    by code_simp
  have c: "cleaned_items '' Whole Milk,bread ,, A,b'' = [''whole milk'', ''bread'', ''a'', ''b'']"
    by code_simp
  from parse_input_items_spec [of "'' Whole Milk,bread ,, A,b''"] p c show ?thesis
    by simp
qed

end
